theory Spec2Isabelle
  imports Main
begin

section \<open>The TeamCity client (client.go), embedded\<close>

subsection \<open>Errors and the retry policy\<close>

text \<open>
  Go's \<open>error\<close> values. \<open>errors_New\<close> is \<open>errors.New\<close>; the others are the errors the
  standard library hands to the client: a transport failure, a JSON syntax error, a JSON
  value that does not fit its Go target, and the wrapper \<open>doRequest\<close> builds with
  \<open>fmt.Errorf("json unmarshal: %s (%q)", err, truncate(body, 1000))\<close>.
  A \<open>nil\<close> error is \<open>None\<close> of \<open>error option\<close>.
\<close>

datatype error =
    errors_New string
  | TransportError string
  | SyntaxError
  | UnmarshalTypeError string
  | JsonUnmarshal error string

text \<open>A line written by \<open>log.Printf("Retry: %v / %v, error: %v\n", i, retries, err)\<close>.\<close>

type_synonym log_line = "int \<times> int \<times> error"

text \<open>
  \<open>withRetry\<close>: the loop \<open>for i := 0; i < retries; i++\<close> with the named result
  \<open>err\<close>. The unit of work \<open>f\<close> is a closure: it reads and writes the variables it
  captured and the world, here the state \<open>'s\<close>. The result is the returned error, the log
  lines written, and the state after the last invocation. Go's \<open>int\<close> has 64 bits; \<open>i\<close>
  stays below \<open>retries\<close>, so \<open>i++\<close> never wraps and \<open>int\<close> is exact.
\<close>

function withRetry_loop ::
  "int \<Rightarrow> int \<Rightarrow> ('s \<Rightarrow> error option \<times> 's) \<Rightarrow> error option \<Rightarrow> log_line list \<Rightarrow> 's
    \<Rightarrow> (error option \<times> log_line list) \<times> 's" where
  "withRetry_loop i retries f err lg s =
     (if i < retries then
        (case f s of
           (Some e, s') \<Rightarrow> withRetry_loop (i + 1) retries f (Some e) (lg @ [(i, retries, e)]) s'
         | (None, s') \<Rightarrow> ((None, lg), s'))
      else ((err, lg), s))"
  by pat_completeness auto
termination
  by (relation "measure (\<lambda>(i, retries, f, err, lg, s). nat (retries - i))") auto

definition withRetry ::
  "int \<Rightarrow> ('s \<Rightarrow> error option \<times> 's) \<Rightarrow> 's \<Rightarrow> (error option \<times> log_line list) \<times> 's" where
  "withRetry retries f s = withRetry_loop 0 retries f None [] s"

text \<open>
  Instruments a unit of work with a counter of its invocations, and \<open>after f k s\<close> is the
  state in which invocation number \<open>k + 1\<close> of \<open>f\<close> starts when the first is started
  in \<open>s\<close>.
\<close>

definition counted :: "('s \<Rightarrow> error option \<times> 's) \<Rightarrow> nat \<times> 's \<Rightarrow> error option \<times> (nat \<times> 's)" where
  "counted f = (\<lambda>(n, s). case f s of (e, s') \<Rightarrow> (e, (Suc n, s')))"

definition after :: "('s \<Rightarrow> error option \<times> 's) \<Rightarrow> nat \<Rightarrow> 's \<Rightarrow> 's" where
  "after f k s = ((\<lambda>x. snd (f x)) ^^ k) s"

subsection \<open>Strings and formatting\<close>

text \<open>
  Go strings are byte sequences, here \<open>string\<close>. \<open>HasSuffix\<close>, \<open>TrimSuffix\<close>,
  \<open>Contains\<close> and \<open>ToLower\<close> are those of package \<open>strings\<close>. \<open>ToLower\<close> is
  modelled on ASCII letters only. The client uses it for one test,
  \<open>Contains(ToLower(host), "http")\<close>, and for that test the restriction changes nothing:
  no character outside ASCII has \<open>h\<close>, \<open>t\<close> or \<open>p\<close> as its lower case, and the bytes
  of a character outside ASCII are not ASCII.
\<close>

definition HasPrefix :: "string \<Rightarrow> string \<Rightarrow> bool" where
  "HasPrefix s pre = (take (length pre) s = pre)"

definition HasSuffix :: "string \<Rightarrow> string \<Rightarrow> bool" where
  "HasSuffix s suffix =
     (length suffix \<le> length s \<and> drop (length s - length suffix) s = suffix)"

definition TrimSuffix :: "string \<Rightarrow> string \<Rightarrow> string" where
  "TrimSuffix s suffix =
     (if HasSuffix s suffix then take (length s - length suffix) s else s)"

fun Contains :: "string \<Rightarrow> string \<Rightarrow> bool" where
  "Contains [] substr = (substr = [])"
| "Contains (c # s) substr = (HasPrefix (c # s) substr \<or> Contains s substr)"

definition lower :: "char \<Rightarrow> char" where
  "lower c =
     (case map_of (zip ''ABCDEFGHIJKLMNOPQRSTUVWXYZ'' ''abcdefghijklmnopqrstuvwxyz'') c of
        Some l \<Rightarrow> l
      | None \<Rightarrow> c)"

definition ToLower :: "string \<Rightarrow> string" where
  "ToLower s = map lower s"

text \<open>\<open>fmt.Sprintf("%d", n)\<close> and \<open>%v\<close> of an integer: decimal digits, with a sign.\<close>

fun digits :: "nat \<Rightarrow> string" where
  "digits n = (if n < 10 then [''0123456789'' ! n]
               else digits (n div 10) @ [''0123456789'' ! (n mod 10)])"

definition itoa :: "int \<Rightarrow> string" where
  "itoa n = (if n < 0 then CHR ''-'' # digits (nat (- n)) else digits (nat n))"

text \<open>
  \<open>truncate(s, l)\<close>; its one call site passes 1000. (The name \<open>truncate\<close> is taken
  by the record package.)
\<close>

definition truncate_str :: "string \<Rightarrow> nat \<Rightarrow> string" where
  "truncate_str s l = (if length s > l then take l s else s)"

subsection \<open>JSON values and what encoding/json does with them\<close>

text \<open>
  Package \<open>encoding/json\<close> is not part of the repository. It is modelled on parsed
  documents: \<open>JInt\<close> is a number written as an integer, \<open>JReal\<close> one written with a
  fraction or an exponent (kept as written). An object keeps its members in order,
  repeated keys included.
\<close>

datatype json =
    JNull
  | JBool bool
  | JInt int
  | JReal string
  | JString string
  | JArray "json list"
  | JObject "(string \<times> json) list"

text \<open>
  The bytes of a body: their characters, and the document \<open>encoding/json\<close> parses from
  them, \<open>None\<close> when they are not one valid JSON document.
\<close>

datatype bytes = Bytes (chars: string) (parsed: "json option")

text \<open>
  A decoder stores a JSON value into a Go variable: it takes the variable's current value
  and returns the new one, with the first error it saved, as \<open>Unmarshal\<close> does: a value
  of the wrong kind is an \<open>UnmarshalTypeError\<close>, the variable keeps its value and
  decoding goes on. \<open>null\<close> leaves a string, a number, a bool or a struct as it is and
  sets a slice or a pointer to nil. A nil slice or pointer is \<open>None\<close>.
\<close>

type_synonym 'a decoder = "json \<Rightarrow> 'a \<Rightarrow> error option \<times> 'a"

definition saveError :: "error option \<Rightarrow> error option \<Rightarrow> error option" where
  "saveError saved e = (case saved of None \<Rightarrow> e | Some x \<Rightarrow> Some x)"

fun kind :: "json \<Rightarrow> string" where
  "kind JNull = ''null''"
| "kind (JBool b) = ''bool''"
| "kind (JInt n) = ''number''"
| "kind (JReal r) = ''number''"
| "kind (JString s) = ''string''"
| "kind (JArray js) = ''array''"
| "kind (JObject ms) = ''object''"

definition decode_string :: "string decoder" where
  "decode_string j old =
     (case j of JString s \<Rightarrow> (None, s) | JNull \<Rightarrow> (None, old)
      | _ \<Rightarrow> (Some (UnmarshalTypeError (kind j)), old))"

definition decode_bool :: "bool decoder" where
  "decode_bool j old =
     (case j of JBool b \<Rightarrow> (None, b) | JNull \<Rightarrow> (None, old)
      | _ \<Rightarrow> (Some (UnmarshalTypeError (kind j)), old))"

text \<open>Go's \<open>int\<close> and \<open>int64\<close>: 64 bits, a number outside the range is a type error.\<close>

definition decode_int :: "int decoder" where
  "decode_int j old =
     (case j of
        JInt n \<Rightarrow> (if - (2 ^ 63) \<le> n \<and> n < 2 ^ 63 then (None, n)
                   else (Some (UnmarshalTypeError (kind j)), old))
      | JNull \<Rightarrow> (None, old)
      | _ \<Rightarrow> (Some (UnmarshalTypeError (kind j)), old))"

text \<open>
  An array into a slice: element \<open>i\<close> is decoded into the slice's element \<open>i\<close> where
  the slice has one, into a zero value otherwise; the result has the array's length and is
  not nil, also for an empty array.
\<close>

fun decode_elems :: "'a decoder \<Rightarrow> 'a \<Rightarrow> json list \<Rightarrow> 'a list \<Rightarrow> error option \<times> 'a list" where
  "decode_elems d z [] old = (None, [])"
| "decode_elems d z (j # js) old =
     (case d j (case old of [] \<Rightarrow> z | x # xs \<Rightarrow> x) of
        (e, v) \<Rightarrow> (case decode_elems d z js (tl old) of
                     (e', vs) \<Rightarrow> (saveError e e', v # vs)))"

definition decode_slice :: "'a decoder \<Rightarrow> 'a \<Rightarrow> 'a list option decoder" where
  "decode_slice d z j old =
     (case j of
        JNull \<Rightarrow> (None, None)
      | JArray js \<Rightarrow>
          (case decode_elems d z js (case old of None \<Rightarrow> [] | Some xs \<Rightarrow> xs) of
             (e, vs) \<Rightarrow> (e, Some vs))
      | _ \<Rightarrow> (Some (UnmarshalTypeError (kind j)), old))"

text \<open>A pointer: \<open>null\<close> sets it to nil; anything else allocates where it is nil.\<close>

definition decode_ptr :: "'a decoder \<Rightarrow> 'a \<Rightarrow> 'a option decoder" where
  "decode_ptr d z j old =
     (case j of
        JNull \<Rightarrow> (None, None)
      | _ \<Rightarrow> (case d j (case old of None \<Rightarrow> z | Some v \<Rightarrow> v) of (e, v) \<Rightarrow> (e, Some v)))"

text \<open>
  A struct: the members of an object are taken in order, each decoded into the field its
  key names, keys compared without regard to letter case (on ASCII, as \<open>ToLower\<close>);
  a member that names no field is skipped. \<open>field k v r\<close> is the struct's own part:
  it stores \<open>v\<close> into the field of \<open>r\<close> named by \<open>k\<close>.
\<close>

definition matches :: "string \<Rightarrow> string \<Rightarrow> bool" where
  "matches name k = (ToLower k = ToLower name)"

definition decode_struct :: "(string \<Rightarrow> json \<Rightarrow> 'r \<Rightarrow> error option \<times> 'r) \<Rightarrow> 'r decoder" where
  "decode_struct field j r =
     (case j of
        JObject ms \<Rightarrow>
          foldl (\<lambda>(e, r) (k, v). case field k v r of (e', r') \<Rightarrow> (saveError e e', r'))
            (None, r) ms
      | JNull \<Rightarrow> (None, r)
      | _ \<Rightarrow> (Some (UnmarshalTypeError (kind j)), r))"

text \<open>\<open>json.Unmarshal\<close>: bytes that are not a JSON document change nothing.\<close>

definition Unmarshal :: "'v decoder \<Rightarrow> bytes \<Rightarrow> 'v \<Rightarrow> error option \<times> 'v" where
  "Unmarshal d b v = (case parsed b of None \<Rightarrow> (Some SyntaxError, v) | Some j \<Rightarrow> d j v)"

subsection \<open>The client, the transport and the world\<close>

text \<open>
  What \<open>doNotJSONRequest\<close> hands to \<open>c.HTTPClient.Do\<close>: the method, the resolved
  URL, the body (the JSON document \<open>json.Marshal\<close> made of \<open>data\<close>, \<open>None\<close> when
  \<open>data\<close> is nil), the basic-auth pair and the headers added.
\<close>

record request =
  req_method :: string
  req_url :: string
  req_body :: "json option"
  req_auth :: "string \<times> string"
  req_header :: "(string \<times> string) list"

text \<open>
  What comes back: \<open>Do\<close> fails, or \<open>ioutil.ReadAll\<close> returns the bytes read and
  its error.
\<close>

datatype reply = Failed error | Replied bytes "error option"

text \<open>
  The struct \<open>Client\<close>. The transport behind \<open>HTTPClient\<close> is a function of the request
  and of a world \<open>'w\<close> (the server, the network) that it may change.
\<close>

record 'w Client =
  HTTPClient :: "request \<Rightarrow> 'w \<Rightarrow> reply \<times> 'w"
  username :: string
  password :: string
  host :: string
  debug :: bool

text \<open>
  The state the methods run in: the client behind the receiver \<open>c\<close>, the world, and
  what the methods have written so far: the requests given to the transport, the lines
  printed to standard output, the lines logged by \<open>withRetry\<close>, and the contents of the
  files \<open>doRequest\<close> wrote under \<open>/tmp\<close>.
\<close>

record 'w state =
  client :: "'w Client"
  world :: 'w
  sent :: "request list"
  stdout :: "string list"
  logged :: "log_line list"
  files :: "bytes list"

text \<open>A function that may panic.\<close>

datatype 'a outcome = Panic | Return 'a

definition SetDebug :: "bool \<Rightarrow> 'w state \<Rightarrow> 'w state" where
  "SetDebug d s = s\<lparr>client := (client s)\<lparr>debug := d\<rparr>\<rparr>"

definition addProtocol :: "'w Client \<Rightarrow> string \<Rightarrow> string" where
  "addProtocol c path =
     (let host0 = host c;
          host1 = (if HasSuffix host0 ''/'' then TrimSuffix host0 ''/'' else host0);
          prefix = (if Contains (ToLower host1) ''http'' then '''' else ''https://'')
      in prefix @ host1 @ path)"

text \<open>
  The request \<open>doNotJSONRequest\<close> builds: \<open>http.NewRequest\<close> with the resolved URL,
  \<open>SetBasicAuth\<close>, the \<open>Accept\<close> header, and \<open>Content-Type\<close> when there is a body.
  \<open>http.NewRequest\<close> is taken to succeed: the source drops its error.
\<close>

definition request_of :: "'w Client \<Rightarrow> string \<Rightarrow> string \<Rightarrow> json option \<Rightarrow> request" where
  "request_of c meth path data =
     \<lparr>req_method = meth, req_url = addProtocol c path, req_body = data,
      req_auth = (username c, password c),
      req_header = (''Accept'', ''application/json'') #
        (if data \<noteq> None then [(''Content-Type'', ''application/json'')] else [])\<rparr>"

text \<open>
  \<open>doNotJSONRequest\<close>. \<open>json.Marshal\<close> does not fail on the data the operations pass
  (structs of strings, maps with string keys), so its error branch is left out.
\<close>

definition doNotJSONRequest ::
  "string \<Rightarrow> string \<Rightarrow> json option \<Rightarrow> 'w state \<Rightarrow> (bytes \<times> error option) \<times> 'w state" where
  "doNotJSONRequest meth path data s =
     (let c = client s;
          s1 = (if debug c
                then s\<lparr>stdout := stdout s @ [''Sending request to '' @ addProtocol c path]\<rparr>
                else s);
          req = request_of c meth path data;
          s2 = s1\<lparr>sent := sent s1 @ [req]\<rparr>
      in case HTTPClient c req (world s2) of
           (Failed err, w) \<Rightarrow> ((Bytes [] None, Some err), s2\<lparr>world := w\<rparr>)
         | (Replied cnt err, w) \<Rightarrow> ((cnt, err), s2\<lparr>world := w\<rparr>))"

text \<open>
  \<open>doRequest\<close>, as a unit of work: it runs on the variable \<open>v\<close> points to and the state.
  \<open>unmarshal\<close> is the decoder of that variable's type, \<open>None\<close> when \<open>v\<close> is nil.
\<close>

definition doRequest ::
  "string \<Rightarrow> string \<Rightarrow> json option \<Rightarrow> 'v decoder option \<Rightarrow> 'v \<times> 'w state
    \<Rightarrow> error option \<times> ('v \<times> 'w state)" where
  "doRequest meth path data unmarshal = (\<lambda>(v, s).
     case doNotJSONRequest meth path data s of
       ((jsonCnt, Some err), s1) \<Rightarrow> (Some err, (v, s1))
     | ((jsonCnt, None), s1) \<Rightarrow>
         (let s2 = s1\<lparr>files := files s1 @ [jsonCnt]\<rparr>
          in case unmarshal of
               None \<Rightarrow> (None, (v, s2))
             | Some d \<Rightarrow>
                 (case Unmarshal d jsonCnt v of
                    (Some err, v') \<Rightarrow>
                      (Some (JsonUnmarshal err (truncate_str (chars jsonCnt) 1000)), (v', s2))
                  | (None, v') \<Rightarrow> (None, (v', s2)))))"

text \<open>
  An operation's call of \<open>withRetry\<close>: the closure runs on the variable it captured and the
  state; the lines \<open>withRetry\<close> logged are added to the state.
\<close>

definition retrying ::
  "int \<Rightarrow> ('v \<times> 'w state \<Rightarrow> error option \<times> ('v \<times> 'w state)) \<Rightarrow> 'v \<Rightarrow> 'w state
    \<Rightarrow> error option \<times> ('v \<times> 'w state)" where
  "retrying retries f v s =
     (case withRetry retries f (v, s) of
        ((err, lg), (v', s')) \<Rightarrow> (err, (v', s'\<lparr>logged := logged s' @ lg\<rparr>)))"

subsection \<open>The types declared outside the sources\<close>

text \<open>
  Modelled from the spec: the types \<open>Build\<close>, \<open>Change\<close>, \<open>ProblemOccurrence\<close>,
  \<open>TestOccurrence\<close> and \<open>oneProperty\<close> and the method \<open>convertInputs\<close> are used by
  client.go and declared in a file that is not among the sources. The operations take
  what they use of them as parameters. For \<open>Build\<close>: its zero value, its decoder, its
  numeric \<open>ID\<close>, and \<open>convertInputs\<close>, which works on the build its receiver points to
  (the receiver may be nil) and may panic. For the three occurrence types: the zero value
  and the decoder. \<open>oneProperty\<close> is a name and a value, on the wire under the keys
  \<open>name\<close> and \<open>value\<close>, as the spec gives it.
\<close>

record 'b Build_type =
  Build_zero :: 'b
  Build_decode :: "'b decoder"
  Build_ID :: "'b \<Rightarrow> int"
  convertInputs :: "'b option \<Rightarrow> 'b option outcome"

record 'a elem_type =
  elem_zero :: 'a
  elem_decode :: "'a decoder"

record oneProperty =
  Name :: string
  Value :: string

definition oneProperty_field :: "string \<Rightarrow> json \<Rightarrow> oneProperty \<Rightarrow> error option \<times> oneProperty" where
  "oneProperty_field k v p =
     (if matches ''name'' k then
        (case decode_string v (Name p) of (e, x) \<Rightarrow> (e, p\<lparr>Name := x\<rparr>))
      else if matches ''value'' k then
        (case decode_string v (Value p) of (e, x) \<Rightarrow> (e, p\<lparr>Value := x\<rparr>))
      else (None, p))"

definition marshal_oneProperty :: "oneProperty \<Rightarrow> json" where
  "marshal_oneProperty p = JObject [(''name'', JString (Name p)), (''value'', JString (Value p))]"

subsection \<open>The operations\<close>

text \<open>
  \<open>QueueBuild\<close>. \<open>jsonQuery\<close> is the anonymous struct of the source, with its JSON
  tags: \<open>buildTypeId\<close>, \<open>branchName\<close>, \<open>personal\<close> and \<open>property\<close> are
  \<open>omitempty\<close>, \<open>properties\<close> is not. \<open>properties\<close> is a Go map; the \<open>range\<close>
  over it visits its entries in an order Go leaves open, so the operation takes the
  entries as a list, in the order visited. Strings are taken to be valid UTF-8, which
  \<open>json.Marshal\<close> writes as they are (it replaces other bytes).
\<close>

record jsonQuery =
  q_BuildTypeID :: string
  q_Property :: "oneProperty list"
  q_BranchName :: string
  q_Personal :: string

definition marshal_jsonQuery :: "jsonQuery \<Rightarrow> json" where
  "marshal_jsonQuery q = JObject (
     (if q_BuildTypeID q = '''' then [] else [(''buildTypeId'', JString (q_BuildTypeID q))]) @
     [(''properties'', JObject
        (if q_Property q = [] then []
         else [(''property'', JArray (map marshal_oneProperty (q_Property q)))]))] @
     (if q_BranchName q = '''' then [] else [(''branchName'', JString (q_BranchName q))]) @
     (if q_Personal q = '''' then [] else [(''personal'', JString (q_Personal q))]))"

definition QueueBuild ::
  "'b Build_type \<Rightarrow> string \<Rightarrow> string \<Rightarrow> (string \<times> string) list \<Rightarrow> 'w state
    \<Rightarrow> ('b option \<times> error option) outcome \<times> 'w state" where
  "QueueBuild B buildTypeID branchName properties s =
     (let q0 = \<lparr>q_BuildTypeID = buildTypeID, q_Property = [], q_BranchName = '''',
                 q_Personal = ''true''\<rparr>;
          q1 = (if branchName \<noteq> '''' then q0\<lparr>q_BranchName := branchName\<rparr> else q0);
          q2 = foldl (\<lambda>q (k, v). q\<lparr>q_Property := q_Property q @ [\<lparr>Name = k, Value = v\<rparr>]\<rparr>)
                 q1 properties;
          retries = 8
      in case retrying retries
             (doRequest ''POST'' ''/httpAuth/app/rest/buildQueue'' (Some (marshal_jsonQuery q2))
                (Some (decode_ptr (Build_decode B) (Build_zero B))))
             (Some (Build_zero B)) s of
           (Some err, (build, s')) \<Rightarrow> (Return (None, Some err), s')
         | (None, (build, s')) \<Rightarrow>
             (case convertInputs B build of
                Panic \<Rightarrow> (Panic, s')
              | Return build' \<Rightarrow> (Return (build', None), s')))"

text \<open>
  \<open>SearchBuild\<close> and \<open>GetQueuedBuilds\<close>. \<open>respStruct\<close> has no JSON tags: its fields
  are found by their names, without regard to case.
\<close>

record 'b respStruct =
  rs_Count :: int
  rs_Build :: "'b option list option"

definition respStruct_field ::
  "'b Build_type \<Rightarrow> string \<Rightarrow> json \<Rightarrow> 'b respStruct \<Rightarrow> error option \<times> 'b respStruct" where
  "respStruct_field B k v r =
     (if matches ''Count'' k then
        (case decode_int v (rs_Count r) of (e, x) \<Rightarrow> (e, r\<lparr>rs_Count := x\<rparr>))
      else if matches ''Build'' k then
        (case decode_slice (decode_ptr (Build_decode B) (Build_zero B)) None v (rs_Build r) of
           (e, x) \<Rightarrow> (e, r\<lparr>rs_Build := x\<rparr>))
      else (None, r))"

text \<open>The loop \<open>for _, build := range respStruct.Build { build.convertInputs() }\<close>.\<close>

fun convertAll :: "('b option \<Rightarrow> 'b option outcome) \<Rightarrow> 'b option list \<Rightarrow> 'b option list outcome" where
  "convertAll cv [] = Return []"
| "convertAll cv (b # bs) =
     (case cv b of
        Panic \<Rightarrow> Panic
      | Return b' \<Rightarrow> (case convertAll cv bs of Panic \<Rightarrow> Panic | Return bs' \<Rightarrow> Return (b' # bs')))"

definition listBuilds ::
  "'b Build_type \<Rightarrow> string \<Rightarrow> 'w state
    \<Rightarrow> ('b option list option \<times> error option) outcome \<times> 'w state" where
  "listBuilds B path s =
     (let respStruct = \<lparr>rs_Count = 0, rs_Build = None\<rparr>;
          retries = 8
      in case retrying retries
             (doRequest ''GET'' path None (Some (decode_struct (respStruct_field B))))
             respStruct s of
           (Some err, (r, s')) \<Rightarrow> (Return (None, Some err), s')
         | (None, (r, s')) \<Rightarrow>
             (case rs_Build r of
                None \<Rightarrow> (Return (None, None), s')
              | Some builds \<Rightarrow>
                  (case convertAll (convertInputs B) builds of
                     Panic \<Rightarrow> (Panic, s')
                   | Return builds' \<Rightarrow> (Return (Some builds', None), s'))))"

definition SearchBuild ::
  "'b Build_type \<Rightarrow> string \<Rightarrow> 'w state
    \<Rightarrow> ('b option list option \<times> error option) outcome \<times> 'w state" where
  "SearchBuild B locator s =
     listBuilds B (''/httpAuth/app/rest/builds/?locator='' @ locator @
       ''&fields=count,build(*,tags(tag),triggered(*),properties(property),problemOccurrences(*,problemOccurrence(*)),testOccurrences(*,testOccurrence(*)),changes(*,change(*)))'') s"

definition GetQueuedBuilds ::
  "'b Build_type \<Rightarrow> string \<Rightarrow> 'w state
    \<Rightarrow> ('b option list option \<times> error option) outcome \<times> 'w state" where
  "GetQueuedBuilds B locator s =
     listBuilds B (''/httpAuth/app/rest/buildQueue?locator='' @ locator @
       ''&fields=count,build(*,tags(tag),triggered(*),properties(property),problemOccurrences(*,problemOccurrence(*)),testOccurrences(*,testOccurrence(*)),changes(*,change(*)))'') s"

definition GetBuild ::
  "'b Build_type \<Rightarrow> string \<Rightarrow> 'w state \<Rightarrow> ('b option \<times> error option) \<times> 'w state" where
  "GetBuild B buildID s =
     (let path = ''/httpAuth/app/rest/builds/id:'' @ buildID @
            ''?fields=*,tags(tag),triggered(*),properties(property),problemOccurrences(*,problemOccurrence(*)),testOccurrences(*,testOccurrence(*)),changes(*,change(*))'';
          retries = 8
      in case retrying retries
             (doRequest ''GET'' path None (Some (decode_ptr (Build_decode B) (Build_zero B))))
             None s of
           (Some err, (build, s')) \<Rightarrow> ((None, Some err), s')
         | (None, (build, s')) \<Rightarrow>
             (case build of
                None \<Rightarrow> ((None, Some (errors_New ''build not found'')), s')
              | Some b \<Rightarrow> ((Some b, None), s')))"

text \<open>\<open>GetBuildID\<close>, with its local type \<open>builds\<close>; \<open>Build\<close> is a slice of values.\<close>

record 'b builds =
  bs_Count :: int
  bs_Href :: string
  bs_NextHref :: string
  bs_Build :: "'b list option"

definition builds_field ::
  "'b Build_type \<Rightarrow> string \<Rightarrow> json \<Rightarrow> 'b builds \<Rightarrow> error option \<times> 'b builds" where
  "builds_field B k v r =
     (if matches ''Count'' k then
        (case decode_int v (bs_Count r) of (e, x) \<Rightarrow> (e, r\<lparr>bs_Count := x\<rparr>))
      else if matches ''Href'' k then
        (case decode_string v (bs_Href r) of (e, x) \<Rightarrow> (e, r\<lparr>bs_Href := x\<rparr>))
      else if matches ''NextHref'' k then
        (case decode_string v (bs_NextHref r) of (e, x) \<Rightarrow> (e, r\<lparr>bs_NextHref := x\<rparr>))
      else if matches ''Build'' k then
        (case decode_slice (Build_decode B) (Build_zero B) v (bs_Build r) of
           (e, x) \<Rightarrow> (e, r\<lparr>bs_Build := x\<rparr>))
      else (None, r))"

definition GetBuildID ::
  "'b Build_type \<Rightarrow> string \<Rightarrow> string \<Rightarrow> string \<Rightarrow> 'w state
    \<Rightarrow> (string \<times> error option) outcome \<times> 'w state" where
  "GetBuildID B buildTypeID branchName buildNumber s =
     (let path = ''/httpAuth/app/rest/buildTypes/id:'' @ buildTypeID @
            ''/builds?locator=branch:'' @ branchName @ '',number:'' @ buildNumber @ '',count:1'';
          zero = \<lparr>bs_Count = 0, bs_Href = '''', bs_NextHref = '''', bs_Build = None\<rparr>;
          retries = 8
      in case retrying retries
             (doRequest ''GET'' path None (Some (decode_ptr (decode_struct (builds_field B)) zero)))
             None s of
           (Some err, (build, s')) \<Rightarrow> (Return (''ID not found'', Some err), s')
         | (None, (build, s')) \<Rightarrow>
             (case build of
                None \<Rightarrow> (Return (''ID not found'', Some (errors_New ''build not found'')), s')
              | Some r \<Rightarrow>
                  (case bs_Build r of
                     Some (b # bs) \<Rightarrow> (Return (itoa (Build_ID B b), None), s')
                   | _ \<Rightarrow> (Panic, s'))))"

text \<open>\<open>GetBuildProperties\<close>; the Go map it builds is a map of HOL.\<close>

definition response_field ::
  "string \<Rightarrow> json \<Rightarrow> oneProperty list option \<Rightarrow> error option \<times> oneProperty list option" where
  "response_field k v r =
     (if matches ''property'' k then
        decode_slice (decode_struct oneProperty_field) \<lparr>Name = '''', Value = ''''\<rparr> v r
      else (None, r))"

definition GetBuildProperties ::
  "string \<Rightarrow> 'w state \<Rightarrow> ((string \<rightharpoonup> string) option \<times> error option) \<times> 'w state" where
  "GetBuildProperties buildID s =
     (let path = ''/httpAuth/app/rest/builds/id:'' @ buildID @ ''/resulting-properties'';
          retries = 8
      in case retrying retries
             (doRequest ''GET'' path None (Some (decode_struct response_field))) None s of
           (Some err, (response, s')) \<Rightarrow> ((None, Some err), s')
         | (None, (response, s')) \<Rightarrow>
             ((Some (foldl (\<lambda>m prop. m(Name prop \<mapsto> Value prop)) Map.empty
                      (case response of None \<Rightarrow> [] | Some ps \<Rightarrow> ps)), None), s'))"

text \<open>
  \<open>GetChanges\<close>, \<open>GetProblems\<close>, \<open>GetTests\<close>, \<open>CancelBuild\<close> and \<open>GetBuildLog\<close>
  call \<open>doRequest\<close> or \<open>doNotJSONRequest\<close> themselves, once. The struct
  \<open>changes\<close> has the one field \<open>Change\<close> and is modelled by it, as \<open>response\<close>
  of \<open>GetBuildProperties\<close> is by its field \<open>Property\<close>.
\<close>

definition changes_field ::
  "'c elem_type \<Rightarrow> string \<Rightarrow> json \<Rightarrow> 'c list option \<Rightarrow> error option \<times> 'c list option" where
  "changes_field C k v r =
     (if matches ''Change'' k then decode_slice (elem_decode C) (elem_zero C) v r
      else (None, r))"

definition GetChanges ::
  "'c elem_type \<Rightarrow> string \<Rightarrow> 'w state \<Rightarrow> ('c list option \<times> error option) \<times> 'w state" where
  "GetChanges C path s =
     (case doRequest ''GET'' (path @ '',count:99999'') None
             (Some (decode_struct (changes_field C))) (None, s) of
        (Some err, (changes, s')) \<Rightarrow> ((None, Some err), s')
      | (None, (changes, s')) \<Rightarrow>
          (case changes of
             None \<Rightarrow> ((None, Some (errors_New ''changes not found'')), s')
           | Some cs \<Rightarrow> ((Some cs, None), s')))"

record 'p problems =
  pb_Count :: int
  pb_Default :: bool
  pb_ProblemOccurrence :: "'p list option"

definition problems_field ::
  "'p elem_type \<Rightarrow> string \<Rightarrow> json \<Rightarrow> 'p problems \<Rightarrow> error option \<times> 'p problems" where
  "problems_field P k v r =
     (if matches ''Count'' k then
        (case decode_int v (pb_Count r) of (e, x) \<Rightarrow> (e, r\<lparr>pb_Count := x\<rparr>))
      else if matches ''Default'' k then
        (case decode_bool v (pb_Default r) of (e, x) \<Rightarrow> (e, r\<lparr>pb_Default := x\<rparr>))
      else if matches ''ProblemOccurrence'' k then
        (case decode_slice (elem_decode P) (elem_zero P) v (pb_ProblemOccurrence r) of
           (e, x) \<Rightarrow> (e, r\<lparr>pb_ProblemOccurrence := x\<rparr>))
      else (None, r))"

definition GetProblems ::
  "'p elem_type \<Rightarrow> string \<Rightarrow> int \<Rightarrow> 'w state \<Rightarrow> ('p list option \<times> error option) \<times> 'w state" where
  "GetProblems P path count s =
     (case doRequest ''GET''
             (path @ '',count:'' @ itoa count @ ''&fields=*,problemOccurrence(*,details)'') None
             (Some (decode_struct (problems_field P)))
             (\<lparr>pb_Count = 0, pb_Default = False, pb_ProblemOccurrence = None\<rparr>, s) of
        (Some err, (problems, s')) \<Rightarrow> ((None, Some err), s')
      | (None, (problems, s')) \<Rightarrow>
          (case pb_ProblemOccurrence problems of
             None \<Rightarrow> ((None, Some (errors_New ''problemOccurrence list not found'')), s')
           | Some ps \<Rightarrow> ((Some ps, None), s')))"

record 't tests =
  ts_Count :: int
  ts_HREF :: string
  ts_TestOccurrence :: "'t list option"

definition tests_field ::
  "'t elem_type \<Rightarrow> string \<Rightarrow> json \<Rightarrow> 't tests \<Rightarrow> error option \<times> 't tests" where
  "tests_field T k v r =
     (if matches ''Count'' k then
        (case decode_int v (ts_Count r) of (e, x) \<Rightarrow> (e, r\<lparr>ts_Count := x\<rparr>))
      else if matches ''HREF'' k then
        (case decode_string v (ts_HREF r) of (e, x) \<Rightarrow> (e, r\<lparr>ts_HREF := x\<rparr>))
      else if matches ''TestOccurrence'' k then
        (case decode_slice (elem_decode T) (elem_zero T) v (ts_TestOccurrence r) of
           (e, x) \<Rightarrow> (e, r\<lparr>ts_TestOccurrence := x\<rparr>))
      else (None, r))"

definition GetTests ::
  "'t elem_type \<Rightarrow> string \<Rightarrow> int \<Rightarrow> bool \<Rightarrow> bool \<Rightarrow> 'w state
    \<Rightarrow> ('t list option \<times> error option) \<times> 'w state" where
  "GetTests T path count failingOnly ignoreMuted s =
     (let path1 = (if ignoreMuted then path @ '',currentlyMuted:false'' else path);
          path2 = (if failingOnly then path1 @ '',status:FAILURE'' else path1);
          path3 = path2 @ '',count:'' @ itoa count
      in case doRequest ''GET'' path3 None (Some (decode_struct (tests_field T)))
             (\<lparr>ts_Count = 0, ts_HREF = '''', ts_TestOccurrence = None\<rparr>, s) of
           (Some err, (tests, s')) \<Rightarrow> ((None, Some err), s')
         | (None, (tests, s')) \<Rightarrow> ((ts_TestOccurrence tests, None), s'))"

definition CancelBuild :: "int \<Rightarrow> string \<Rightarrow> 'w state \<Rightarrow> error option \<times> 'w state" where
  "CancelBuild buildID comment s =
     (let body = JObject [(''buildCancelRequest'',
            JObject [(''comment'', JString comment), (''readIntoQueue'', JBool True)])]
      in case doRequest ''POST'' (''/httpAuth/app/rest/id:'' @ itoa buildID) (Some body)
             (None :: unit decoder option) ((), s) of
           (err, (u, s')) \<Rightarrow> (err, s'))"

definition GetBuildLog :: "string \<Rightarrow> 'w state \<Rightarrow> (string \<times> error option) \<times> 'w state" where
  "GetBuildLog buildID s =
     (case doNotJSONRequest ''GET'' (''/httpAuth/downloadBuildLog.html?buildId='' @ buildID)
             None s of
        ((cnt, err), s') \<Rightarrow> ((chars cnt, err), s'))"

subsection \<open>The test client of mock_test.go\<close>

text \<open>
  \<open>MockTransport\<close> answers every request with the same response and error. The
  response's body is a buffer: the first \<open>ReadAll\<close> empties it, so a later one reads no
  bytes. The world of this transport is whether the body has been read.
  \<open>NewTestClient\<close> is the client around it, and \<open>test_state\<close> a state with that client
  in which nothing has happened yet.
\<close>

definition MockTransport :: "bytes \<Rightarrow> error option \<Rightarrow> request \<Rightarrow> bool \<Rightarrow> reply \<times> bool" where
  "MockTransport resp err req readBefore =
     (case err of
        Some e \<Rightarrow> (Failed e, readBefore)
      | None \<Rightarrow> (Replied (if readBefore then Bytes [] None else resp) None, True))"

definition NewTestClient :: "bytes \<Rightarrow> error option \<Rightarrow> bool Client" where
  "NewTestClient replyResp err =
     \<lparr>HTTPClient = MockTransport replyResp err, username = ''username'',
      password = ''password'', host = ''host.example.com'', debug = False\<rparr>"

definition test_state :: "bytes \<Rightarrow> error option \<Rightarrow> bool state" where
  "test_state replyResp err =
     \<lparr>client = NewTestClient replyResp err, world = False, sent = [], stdout = [],
      logged = [], files = []\<rparr>"

subsection \<open>Notions the properties are stated with\<close>

text \<open>
  For the URL: the host with one trailing slash stripped, and a host that contains
  \<open>http\<close> in some letter case (at some position the next four characters are \<open>h\<close> or
  \<open>H\<close>, \<open>t\<close> or \<open>T\<close>, \<open>t\<close> or \<open>T\<close>, \<open>p\<close> or \<open>P\<close>).
\<close>

definition strip_slash :: "string \<Rightarrow> string" where
  "strip_slash h = (if h \<noteq> [] \<and> last h = CHR ''/'' then butlast h else h)"

definition http_any_case :: "string \<Rightarrow> bool" where
  "http_any_case w =
     (case w of
        [a, b, c, d] \<Rightarrow>
          (a = CHR ''h'' \<or> a = CHR ''H'') \<and> (b = CHR ''t'' \<or> b = CHR ''T'') \<and>
          (c = CHR ''t'' \<or> c = CHR ''T'') \<and> (d = CHR ''p'' \<or> d = CHR ''P'')
      | _ \<Rightarrow> False)"

fun contains_http :: "string \<Rightarrow> bool" where
  "contains_http [] = False"
| "contains_http (c # s) = (http_any_case (take 4 (c # s)) \<or> contains_http s)"

text \<open>
  For the operations: a state whose transport answers what it is asked now with the body
  \<open>body\<close> and no error, and a state whose transport fails every request, whatever the
  world.
\<close>

definition answers :: "'w state \<Rightarrow> bytes \<Rightarrow> bool" where
  "answers s body = (\<forall>req. fst (HTTPClient (client s) req (world s)) = Replied body None)"


text \<open>
  Parameters for concrete runs: a \<open>Build\<close> reduced to its \<open>ID\<close>, with a
  \<open>convertInputs\<close> that changes nothing, and an element type that keeps the JSON value
  it is decoded from.
\<close>

definition ID_Build :: "int Build_type" where
  "ID_Build =
     \<lparr>Build_zero = 0,
      Build_decode = decode_struct (\<lambda>k v r. if matches ''ID'' k then decode_int v r else (None, r)),
      Build_ID = (\<lambda>b. b),
      convertInputs = Return\<rparr>"


text \<open>Response bodies for concrete runs: the bytes, and the document they parse to.\<close>

definition body_null :: bytes where
  \<open>body_null = Bytes ''null'' (Some JNull)\<close>



definition body_no_build :: bytes where
  \<open>body_no_build = Bytes ''{"count":0,"build":[]}''
     (Some (JObject [(''count'', JInt 0), (''build'', JArray [])]))\<close>

definition body_one_build :: bytes where
  \<open>body_one_build = Bytes ''{"count":1,"build":[{"id":42}]}''
     (Some (JObject [(''count'', JInt 1), (''build'', JArray [JObject [(''id'', JInt 42)]])]))\<close>


text \<open>
  A unit of work for concrete runs: its state is the number of invocations so far, and it
  fails as long as that number is below \<open>m\<close>.
\<close>

definition flaky :: "nat \<Rightarrow> nat \<Rightarrow> error option \<times> nat" where
  "flaky m s = (if s < m then Some (TransportError ''connection refused'') else None, Suc s)"

section \<open>Properties\<close>

subsection \<open>The retry loop\<close>

declare withRetry_loop.simps [simp del]

lemma withRetry_loop_fail:
  "i < retries \<Longrightarrow> f s = (Some e, s') \<Longrightarrow>
   withRetry_loop i retries f err lg s =
     withRetry_loop (i + 1) retries f (Some e) (lg @ [(i, retries, e)]) s'"
  by (subst withRetry_loop.simps) simp

lemma withRetry_loop_ok:
  "i < retries \<Longrightarrow> f s = (None, s') \<Longrightarrow> withRetry_loop i retries f err lg s = ((None, lg), s')"
  by (subst withRetry_loop.simps) simp

lemma withRetry_loop_done:
  "\<not> i < retries \<Longrightarrow> withRetry_loop i retries f err lg s = ((err, lg), s)"
  by (subst withRetry_loop.simps) simp

lemma counted_apply: "counted f (n, s) = (fst (f s), (Suc n, snd (f s)))"
  by (simp add: counted_def split: prod.splits)

lemma after_0: "after f 0 s = s"
  by (simp add: after_def)

lemma after_Suc: "after f (Suc k) s = snd (f (after f k s))"
  by (simp add: after_def)

text \<open>What every invocation of the unit of work keeps, the loop keeps.\<close>

lemma withRetry_loop_invariant:
  "(\<forall>x. P x \<longrightarrow> P (snd (f x))) \<Longrightarrow> P x \<Longrightarrow>
   P (snd (withRetry_loop i retries f err lg x))"
proof (induction i retries f err lg x rule: withRetry_loop.induct)
  case (1 i retries f err lg s)
  show ?case
  proof (cases "i < retries")
    case False
    with "1.prems" show ?thesis by (simp add: withRetry_loop_done)
  next
    case True
    obtain e s' where fs: "f s = (e, s')" by (cases "f s")
    from fs "1.prems" have P': "P s'" by (metis snd_conv)
    show ?thesis
    proof (cases e)
      case None
      with True fs P' show ?thesis by (simp add: withRetry_loop_ok)
    next
      case (Some x)
      with True fs have "withRetry_loop i retries f err lg s =
        withRetry_loop (i + 1) retries f (Some x) (lg @ [(i, retries, x)]) s'"
        by (simp add: withRetry_loop_fail)
      moreover have "P (snd (withRetry_loop (i + 1) retries f (Some x) (lg @ [(i, retries, x)]) s'))"
        using "1.IH" [OF True fs [symmetric] Some "1.prems"(1) P'] .
      ultimately show ?thesis by simp
    qed
  qed
qed

text \<open>
  As long as the unit of work fails, the loop goes on: after \<open>m\<close> failures it stands at
  index \<open>i + m\<close> with the last error, in the state the next invocation starts in.
\<close>

lemma withRetry_loop_failures:
  "(\<forall>k<m. fst (f (after f k s)) \<noteq> None) \<Longrightarrow> i + int m \<le> retries \<Longrightarrow>
   \<exists>lg'. withRetry_loop i retries f err lg s =
     withRetry_loop (i + int m) retries f
       (if m = 0 then err else fst (f (after f (m - 1) s))) lg' (after f m s)"
proof (induction m)
  case 0
  show ?case by (rule exI [of _ lg]) (simp add: after_0)
next
  case (Suc m)
  then obtain lg' where a: "withRetry_loop i retries f err lg s =
     withRetry_loop (i + int m) retries f
       (if m = 0 then err else fst (f (after f (m - 1) s))) lg' (after f m s)"
    by force
  from Suc.prems obtain e where e: "fst (f (after f m s)) = Some e" by auto
  have c: "f (after f m s) = (Some e, after f (Suc m) s)"
    by (simp add: e [symmetric] after_Suc)
  have lt: "i + int m < retries" using Suc.prems by simp
  have "withRetry_loop (i + int m) retries f
       (if m = 0 then err else fst (f (after f (m - 1) s))) lg' (after f m s) =
       withRetry_loop (i + int m + 1) retries f (Some e) (lg' @ [(i + int m, retries, e)])
         (after f (Suc m) s)"
    by (rule withRetry_loop_fail [where f = f and s = "after f m s", OF lt c])
  with a e show ?case by (auto simp: algebra_simps)
qed

lemma after_counted: "after (counted f) k (n, s) = (n + k, after f k s)"
  by (induction k) (simp_all add: after_0 after_Suc counted_apply)

lemma withRetry_succeeds_at:
  assumes N: "1 \<le> N" "N \<le> 8"
    and fl: "\<forall>k<N - 1. fst (f (after f k s)) \<noteq> None"
    and ok: "fst (f (after f (N - 1) s)) = None"
  shows "fst (fst (withRetry 8 (counted f) (0, s))) = None \<and>
         snd (withRetry 8 (counted f) (0, s)) = (N, after f N s)"
proof -
  have fl': "\<forall>k<N - 1. fst (counted f (after (counted f) k (0, s))) \<noteq> None"
    using fl by (simp add: after_counted counted_apply)
  from withRetry_loop_failures [OF fl', of 0 8 None "[]"] N obtain lg' e' where
    a: "withRetry_loop 0 8 (counted f) None [] (0, s) =
        withRetry_loop (int (N - 1)) 8 (counted f) e' lg' (N - 1, after f (N - 1) s)"
    by (auto simp: after_counted)
  have st: "after f N s = snd (f (after f (N - 1) s))"
    using N after_Suc [of f "N - 1" s] by simp
  have c: "counted f (N - 1, after f (N - 1) s) = (None, (N, after f N s))"
    using N ok by (simp add: counted_apply st)
  have lt: "int (N - 1) < 8" using N by simp
  show ?thesis unfolding withRetry_def a
    withRetry_loop_ok [where f = "counted f" and s = "(N - 1, after f (N - 1) s)", OF lt c]
    by simp
qed

lemma withRetry_exhausted:
  assumes fl: "\<forall>k<8. fst (f (after f k s)) \<noteq> None"
  shows "fst (fst (withRetry 8 f s)) = fst (f (after f 7 s)) \<and>
         snd (withRetry 8 f s) = after f 8 s"
proof -
  from withRetry_loop_failures [OF fl, of 0 8 None "[]"] obtain lg' where
    a: "withRetry_loop 0 8 f None [] s =
        withRetry_loop 8 8 f (fst (f (after f 7 s))) lg' (after f 8 s)"
    by auto
  show ?thesis unfolding withRetry_def a by (simp add: withRetry_loop_done)
qed

text \<open>
  C1. A unit of work that fails on its first \<open>N - 1\<close> invocations and succeeds on
  invocation \<open>N\<close>, for \<open>1 \<le> N \<le> 8\<close>, makes \<open>withRetry 8\<close> return nil after exactly
  \<open>N\<close> invocations; a unit of work that fails on each of its first 8 invocations is
  invoked exactly 8 times, and the error returned is that of invocation 8.
\<close>

theorem withRetry_attempts:
  "(1 \<le> N \<and> N \<le> 8 \<and> (\<forall>k<N - 1. fst (f (after f k s)) \<noteq> None) \<and>
      fst (f (after f (N - 1) s)) = None \<longrightarrow>
      fst (fst (withRetry 8 (counted f) (0, s))) = None \<and>
      snd (withRetry 8 (counted f) (0, s)) = (N, after f N s)) \<and>
   ((\<forall>k<8. fst (f (after f k s)) \<noteq> None) \<longrightarrow>
      fst (fst (withRetry 8 (counted f) (0, s))) = fst (f (after f 7 s)) \<and>
      fst (f (after f 7 s)) \<noteq> None \<and>
      snd (withRetry 8 (counted f) (0, s)) = (8, after f 8 s))"
  using withRetry_succeeds_at [of N f s] withRetry_exhausted [of "counted f" "(0, s)"]
  by (auto simp: after_counted counted_apply)

lemma after_flaky: "after (flaky m) k s = s + k"
  by (induction k) (simp_all add: after_0 after_Suc flaky_def)

theorem withRetry_attempts_witness:
  "fst (fst (withRetry 8 (counted (flaky 2)) (0, 0))) = None \<and>
   snd (withRetry 8 (counted (flaky 2)) (0, 0)) = (3, 3) \<and>
   fst (fst (withRetry 8 (counted (flaky 9)) (0, 0))) =
     Some (TransportError ''connection refused'') \<and>
   snd (withRetry 8 (counted (flaky 9)) (0, 0)) = (8, 8)"
  using withRetry_attempts [of 3 "flaky 2" 0] withRetry_attempts [of 1 "flaky 9" 0]
  by (simp add: after_flaky) (simp add: flaky_def)

text \<open>
  C10. With \<open>retries \<le> 0\<close> the loop body never runs: the unit of work is not invoked
  (the state, and the counter of an instrumented unit, are as before) and the result is
  nil, with nothing logged.
\<close>

theorem withRetry_no_attempts:
  "retries \<le> 0 \<Longrightarrow>
   withRetry retries f s = ((None, []), s) \<and>
   withRetry retries (counted g) (n, t) = ((None, []), (n, t))"
  by (simp add: withRetry_def withRetry_loop_done)

theorem withRetry_no_attempts_witness:
  "withRetry (- 1) (flaky 0) 0 = ((None, []), 0) \<and>
   withRetry 0 (counted (flaky 0)) (0, 0) = ((None, []), (0, 0))"
  using withRetry_no_attempts [of "- 1" "flaky 0" 0 "flaky 0" 0 0]
    withRetry_no_attempts [of 0 "flaky 0" 0 "flaky 0" 0 0]
  by simp

subsection \<open>URL resolution\<close>

lemma HasSuffix_slash: "HasSuffix h ''/'' \<longleftrightarrow> h \<noteq> [] \<and> last h = CHR ''/''"
proof (cases h rule: rev_cases)
  case Nil
  then show ?thesis by (simp add: HasSuffix_def)
next
  case (snoc ys y)
  then show ?thesis by (auto simp add: HasSuffix_def)
qed

lemma TrimSuffix_slash: "HasSuffix h ''/'' \<Longrightarrow> TrimSuffix h ''/'' = butlast h"
  by (simp add: TrimSuffix_def butlast_conv_take)

lemma lower_h: "lower a = CHR ''h'' \<longleftrightarrow> a = CHR ''h'' \<or> a = CHR ''H''"
  by (auto simp: lower_def split: if_splits)

lemma lower_t: "lower a = CHR ''t'' \<longleftrightarrow> a = CHR ''t'' \<or> a = CHR ''T''"
  by (auto simp: lower_def split: if_splits)

lemma lower_p: "lower a = CHR ''p'' \<longleftrightarrow> a = CHR ''p'' \<or> a = CHR ''P''"
  by (auto simp: lower_def split: if_splits)

lemma http_prefix: "http_any_case (take 4 xs) \<longleftrightarrow> HasPrefix (ToLower xs) ''http''"
proof (cases xs)
  case Nil
  then show ?thesis by (simp add: http_any_case_def HasPrefix_def ToLower_def)
next
  case c1: (Cons a xs1)
  show ?thesis
  proof (cases xs1)
    case Nil
    with c1 show ?thesis by (simp add: http_any_case_def HasPrefix_def ToLower_def)
  next
    case c2: (Cons b xs2)
    show ?thesis
    proof (cases xs2)
      case Nil
      with c1 c2 show ?thesis by (simp add: http_any_case_def HasPrefix_def ToLower_def)
    next
      case c3: (Cons c xs3)
      show ?thesis
      proof (cases xs3)
        case Nil
        with c1 c2 c3 show ?thesis by (simp add: http_any_case_def HasPrefix_def ToLower_def)
      next
        case c4: (Cons d xs4)
        with c1 c2 c3 show ?thesis
          by (simp add: http_any_case_def HasPrefix_def ToLower_def lower_h lower_t lower_p)
      qed
    qed
  qed
qed

lemma contains_http_Contains: "contains_http h \<longleftrightarrow> Contains (ToLower h) ''http''"
proof (induction h)
  case Nil
  show ?case by (simp add: ToLower_def)
next
  case (Cons c h)
  have "Contains (ToLower (c # h)) ''http'' \<longleftrightarrow>
        HasPrefix (ToLower (c # h)) ''http'' \<or> Contains (ToLower h) ''http''"
    by (simp add: ToLower_def)
  with Cons show ?case by (simp only: contains_http.simps http_prefix)
qed

lemma contains_http_iff:
  "contains_http h \<longleftrightarrow> (\<exists>ps w ss. h = ps @ w @ ss \<and> http_any_case w)"
proof (induction h)
  case Nil
  show ?case by (simp add: http_any_case_def)
next
  case (Cons c h)
  show ?case
  proof
    assume "contains_http (c # h)"
    then consider "http_any_case (take 4 (c # h))" | "contains_http h" by auto
    then show "\<exists>ps w ss. c # h = ps @ w @ ss \<and> http_any_case w"
    proof cases
      case 1
      have "c # h = [] @ take 4 (c # h) @ drop 4 (c # h)" by simp
      with 1 show ?thesis by blast
    next
      case 2
      with Cons obtain ps w ss where "h = ps @ w @ ss" "http_any_case w" by blast
      then have "c # h = (c # ps) @ w @ ss" by simp
      with \<open>http_any_case w\<close> show ?thesis by blast
    qed
  next
    assume "\<exists>ps w ss. c # h = ps @ w @ ss \<and> http_any_case w"
    then obtain ps w ss where d: "c # h = ps @ w @ ss" and w: "http_any_case w" by blast
    from w have len: "length w = 4" by (auto simp: http_any_case_def split: list.splits)
    show "contains_http (c # h)"
    proof (cases ps)
      case Nil
      with d len have "take 4 (c # h) = w" by simp
      with w show ?thesis by simp
    next
      case (Cons p ps')
      with d have "h = ps' @ w @ ss" by simp
      with w Cons.IH have "contains_http h" by blast
      then show ?thesis by simp
    qed
  qed
qed

lemma contains_http_snoc_slash: "contains_http (h @ ''/'') \<longleftrightarrow> contains_http h"
proof
  assume "contains_http h"
  then obtain ps w ss where "h = ps @ w @ ss" "http_any_case w" by (auto simp: contains_http_iff)
  then have "h @ ''/'' = ps @ w @ (ss @ ''/'')" "http_any_case w" by simp_all
  then show "contains_http (h @ ''/'')" unfolding contains_http_iff by blast
next
  assume "contains_http (h @ ''/'')"
  then obtain ps w ss where d: "h @ ''/'' = ps @ w @ ss" and w: "http_any_case w"
    by (auto simp: contains_http_iff)
  from w have wl: "w \<noteq> [] \<and> last w \<noteq> CHR ''/''"
    by (auto simp: http_any_case_def split: list.splits)
  show "contains_http h"
  proof (cases ss rule: rev_cases)
    case Nil
    with d wl have "last (h @ ''/'') = last w" by simp
    with wl show ?thesis by simp
  next
    case (snoc ss' x)
    with d have "h @ ''/'' = (ps @ w @ ss') @ [x]" by simp
    then have "h = ps @ w @ ss'" by (simp only: append1_eq_conv)
    with w show ?thesis unfolding contains_http_iff by blast
  qed
qed

lemma strip_slash_contains: "contains_http (strip_slash h) \<longleftrightarrow> contains_http h"
proof (cases "h \<noteq> [] \<and> last h = CHR ''/''")
  case True
  then have "h = butlast h @ ''/''" by (metis append_butlast_last_id)
  then have "contains_http h = contains_http (butlast h)" by (metis contains_http_snoc_slash)
  with True show ?thesis by (simp add: strip_slash_def)
next
  case False
  then show ?thesis by (auto simp add: strip_slash_def)
qed

lemma addProtocol_eq:
  "addProtocol c P =
     (if contains_http (host c) then [] else ''https://'') @ strip_slash (host c) @ P"
proof -
  have h1: "(if HasSuffix (host c) ''/'' then TrimSuffix (host c) ''/'' else host c) =
            strip_slash (host c)"
    by (auto simp: TrimSuffix_slash HasSuffix_slash strip_slash_def)
  show ?thesis unfolding addProtocol_def Let_def h1
    by (simp add: contains_http_Contains [symmetric] strip_slash_contains)
qed

text \<open>
  C4. For a host that does not contain \<open>http\<close> in any letter case, the resolved URL is
  \<open>https://\<close>, then the host with one trailing slash stripped, then the path; for a
  host that contains it, the URL is the stripped host and the path, with no scheme added.
\<close>

theorem addProtocol_resolves:
  "(\<not> contains_http (host c) \<longrightarrow> addProtocol c P = ''https://'' @ strip_slash (host c) @ P) \<and>
   (contains_http (host c) \<longrightarrow> addProtocol c P = strip_slash (host c) @ P)"
  by (simp add: addProtocol_eq)

theorem addProtocol_resolves_witness:
  "addProtocol (NewTestClient (Bytes [] None) None) ''/httpAuth/app'' =
     ''https://host.example.com/httpAuth/app'' \<and>
   addProtocol ((NewTestClient (Bytes [] None) None)\<lparr>host := ''HtTp://ci.example.com/''\<rparr>)
     ''/httpAuth/app'' = ''HtTp://ci.example.com/httpAuth/app''"
  using addProtocol_resolves [of "NewTestClient (Bytes [] None) None" "''/httpAuth/app''"]
    addProtocol_resolves [of "(NewTestClient (Bytes [] None) None)\<lparr>host := ''HtTp://ci.example.com/''\<rparr>"
      "''/httpAuth/app''"]
  by (simp add: NewTestClient_def strip_slash_def http_any_case_def)

subsection \<open>Requests, and operations that retry\<close>

text \<open>
  One request: the client is left as it is and one request is added to those sent. A
  transport that answers gives \<open>doRequest\<close> the body to decode; one that refuses makes
  it fail.
\<close>

lemma doNotJSONRequest_client: "client (snd (doNotJSONRequest m p d s)) = client s"
  by (simp add: doNotJSONRequest_def Let_def split: prod.splits reply.splits)

lemma doNotJSONRequest_sent:
  "sent (snd (doNotJSONRequest m p d s)) = sent s @ [request_of (client s) m p d]"
  by (simp add: doNotJSONRequest_def Let_def split: prod.splits reply.splits)

lemma doNotJSONRequest_answers:
  assumes "answers s body"
  shows "fst (doNotJSONRequest m p d s) = (body, None)"
proof -
  from assms have "fst (HTTPClient (client s) (request_of (client s) m p d) (world s)) = Replied body None"
    by (simp add: answers_def)
  then show ?thesis
    by (auto simp: doNotJSONRequest_def Let_def split: prod.splits reply.splits)
qed


lemma doRequest_client: "client (snd (snd (doRequest m p d u (v, s)))) = client s"
  using doNotJSONRequest_client [of m p d s]
  by (auto simp: doRequest_def Let_def split: prod.splits option.splits)

lemma doRequest_sent:
  "sent (snd (snd (doRequest m p d u (v, s)))) = sent s @ [request_of (client s) m p d]"
  using doNotJSONRequest_sent [of m p d s]
  by (auto simp: doRequest_def Let_def split: prod.splits option.splits)

lemma doRequest_answers:
  assumes "answers s body"
  shows "fst (doRequest m p d (Some dec) (v, s)) =
           (case fst (Unmarshal dec body v) of None \<Rightarrow> None
            | Some e \<Rightarrow> Some (JsonUnmarshal e (truncate_str (chars body) 1000)))"
    and "fst (snd (doRequest m p d (Some dec) (v, s))) = snd (Unmarshal dec body v)"
  using doNotJSONRequest_answers [OF assms, of m p d]
  by (auto simp: doRequest_def Let_def split: prod.splits option.splits)


text \<open>When the first attempt succeeds, \<open>withRetry\<close> returns after it.\<close>

lemma retrying_first:
  assumes "0 < retries" and "fst (f (v, s)) = None"
  shows "fst (retrying retries f v s) = None"
    and "fst (snd (retrying retries f v s)) = fst (snd (f (v, s)))"
    and "snd (snd (retrying retries f v s)) = snd (snd (f (v, s)))"
proof -
  obtain v' s' where fs: "f (v, s) = (None, (v', s'))"
    using assms(2) by (cases "f (v, s)") auto
  have "withRetry retries f (v, s) = ((None, []), (v', s'))"
    unfolding withRetry_def
    by (rule withRetry_loop_ok [where f = f and s = "(v, s)", OF assms(1) fs])
  then show "fst (retrying retries f v s) = None"
    and "fst (snd (retrying retries f v s)) = fst (snd (f (v, s)))"
    and "snd (snd (retrying retries f v s)) = snd (snd (f (v, s)))"
    by (simp_all add: retrying_def fs)
qed

subsection \<open>Absent collections\<close>









lemma answers_test_state: "answers (test_state body None) body"
  by (simp add: answers_def test_state_def NewTestClient_def MockTransport_def)











subsection \<open>Resulting properties\<close>







subsection \<open>The build ID\<close>

lemma GetBuildID_decoded:
  assumes a: "answers s body"
    and d: "Unmarshal (decode_ptr (decode_struct (builds_field B))
              \<lparr>bs_Count = 0, bs_Href = [], bs_NextHref = [], bs_Build = None\<rparr>) body None = (None, r)"
  shows "fst (GetBuildID B buildTypeID branchName buildNumber s) =
     (case r of
        None \<Rightarrow> Return (''ID not found'', Some (errors_New ''build not found''))
      | Some x \<Rightarrow>
          (case bs_Build x of
             Some (b # bs) \<Rightarrow> Return (itoa (Build_ID B b), None)
           | _ \<Rightarrow> Panic))"
proof -
  let ?p = "''/httpAuth/app/rest/buildTypes/id:'' @ buildTypeID @
            ''/builds?locator=branch:'' @ branchName @ '',number:'' @ buildNumber @ '',count:1''"
  let ?d = "decode_ptr (decode_struct (builds_field B))
              \<lparr>bs_Count = 0, bs_Href = [], bs_NextHref = [], bs_Build = None\<rparr>"
  let ?f = "doRequest ''GET'' ?p None (Some ?d)"
  have ok: "fst (?f (None, s)) = None" "fst (snd (?f (None, s))) = r"
    using doRequest_answers [OF a, of "''GET''" ?p None ?d None] d by simp_all
  obtain e r' s' where R: "retrying 8 ?f None s = (e, (r', s'))"
    by (cases "retrying 8 ?f None s") auto
  with retrying_first [of 8 ?f None s] ok have "e = None" "r' = r" by simp_all
  then show ?thesis unfolding GetBuildID_def Let_def R
    by (simp split: option.splits list.splits)
qed

lemma matches_simps4:
  "matches ''Count'' ''count'' = True" "matches ''Count'' ''build'' = False"
  "matches ''Href'' ''build'' = False" "matches ''NextHref'' ''build'' = False"
  "matches ''Build'' ''build'' = True" "matches ''ID'' ''id'' = True"
  by (simp_all add: matches_def ToLower_def lower_def)

lemma Unmarshal_body_no_build:
  "Unmarshal (decode_ptr (decode_struct (builds_field ID_Build))
      \<lparr>bs_Count = 0, bs_Href = [], bs_NextHref = [], bs_Build = None\<rparr>) body_no_build None =
   (None, Some \<lparr>bs_Count = 0, bs_Href = [], bs_NextHref = [], bs_Build = Some []\<rparr>)"
  by (simp add: body_no_build_def Unmarshal_def decode_ptr_def decode_struct_def
      builds_field_def decode_int_def decode_slice_def matches_simps4 saveError_def)

text \<open>
  C3. The claim: a well-formed response in which the locator matches no build makes
  \<open>GetBuildID\<close> return an error with the placeholder \<open>ID not found\<close>, never a panic.
  The code: on such a response, an object with an empty build list, the decoded pointer is
  not nil, and \<open>build.Build[0]\<close> indexes an empty slice: the operation panics. (The
  examples after it: a response with one build gives that build's ID in decimal, and the
  document \<open>null\<close> gives the placeholder with \<open>build not found\<close>.)
\<close>

theorem GetBuildID_no_match_panics:
  "fst (GetBuildID ID_Build ''Project_Build'' ''master'' ''42'' (test_state body_no_build None)) =
     Panic"
  by (simp add: GetBuildID_decoded [OF answers_test_state Unmarshal_body_no_build])

lemma Unmarshal_body_one_build:
  "Unmarshal (decode_ptr (decode_struct (builds_field ID_Build))
      \<lparr>bs_Count = 0, bs_Href = [], bs_NextHref = [], bs_Build = None\<rparr>) body_one_build None =
   (None, Some \<lparr>bs_Count = 1, bs_Href = [], bs_NextHref = [], bs_Build = Some [42]\<rparr>)"
  by (simp add: body_one_build_def Unmarshal_def decode_ptr_def decode_struct_def
      builds_field_def decode_int_def decode_slice_def matches_simps4 saveError_def ID_Build_def)

lemma itoa_42: "itoa 42 = ''42''"
  by (simp add: itoa_def)

lemma GetBuildID_first_match_example:
  "fst (GetBuildID ID_Build ''Project_Build'' ''master'' ''42'' (test_state body_one_build None)) =
     Return (''42'', None)"
proof -
  have "Build_ID ID_Build 42 = 42" by (simp add: ID_Build_def)
  with GetBuildID_decoded [OF answers_test_state Unmarshal_body_one_build]
  show ?thesis by (simp add: itoa_42)
qed

lemma GetBuildID_null_example:
  "fst (GetBuildID ID_Build ''Project_Build'' ''master'' ''42'' (test_state body_null None)) =
     Return (''ID not found'', Some (errors_New ''build not found''))"
proof -
  have "Unmarshal (decode_ptr (decode_struct (builds_field ID_Build))
      \<lparr>bs_Count = 0, bs_Href = [], bs_NextHref = [], bs_Build = None\<rparr>) body_null None =
      (None, None)"
    by (simp add: body_null_def Unmarshal_def decode_ptr_def)
  from GetBuildID_decoded [OF answers_test_state this] show ?thesis by simp
qed

subsection \<open>The body of a queue-build request\<close>

lemma withRetry_invariant_once:
  assumes r: "0 < retries"
    and q: "Q (snd (f x))"
    and step: "\<forall>y. Q y \<longrightarrow> Q (snd (f y))"
  shows "Q (snd (withRetry retries f x))"
proof -
  obtain e x' where fx: "f x = (e, x')" by (cases "f x")
  with q have q': "Q x'" by simp
  show ?thesis
  proof (cases e)
    case None
    with fx have "withRetry retries f x = ((None, []), x')"
      unfolding withRetry_def
      by (intro withRetry_loop_ok [where f = f and s = x, OF r]) simp
    with q' show ?thesis by simp
  next
    case (Some err)
    with fx have "withRetry retries f x =
        withRetry_loop (0 + 1) retries f (Some err) ([] @ [(0, retries, err)]) x'"
      unfolding withRetry_def
      by (intro withRetry_loop_fail [where f = f and s = x, OF r]) simp
    with withRetry_loop_invariant [where P = Q and f = f and x = x', OF step q']
    show ?thesis by simp
  qed
qed

lemma retrying_sent:
  fixes s :: "'w state" and v :: 'v
  assumes r: "0 < retries"
  shows "client (snd (snd (retrying retries (doRequest m p d u) v s))) = client s \<and>
         (\<exists>n. 1 \<le> n \<and> sent (snd (snd (retrying retries (doRequest m p d u) v s))) =
            sent s @ replicate n (request_of (client s) m p d))"
proof -
  let ?f = "doRequest m p d u :: 'v \<times> 'w state \<Rightarrow> error option \<times> ('v \<times> 'w state)"
  let ?req = "request_of (client s) m p d"
  let ?Q = "\<lambda>y :: 'v \<times> 'w state. client (snd y) = client s \<and>
              (\<exists>n. 1 \<le> n \<and> sent (snd y) = sent s @ replicate n ?req)"
  have q: "?Q (snd (?f (v, s)))"
    using doRequest_client [of m p d u v s] doRequest_sent [of m p d u v s]
    by (auto intro: exI [of _ 1])
  have step: "\<forall>y. ?Q y \<longrightarrow> ?Q (snd (?f y))"
  proof (intro allI impI)
    fix y :: "'v \<times> 'w state"
    assume a: "?Q y"
    obtain v' s' where y: "y = (v', s')" by (cases y)
    from a y obtain n where n: "1 \<le> n" "sent s' = sent s @ replicate n ?req"
      and c: "client s' = client s" by auto
    have "sent (snd (snd (?f y))) = sent s @ replicate (Suc n) ?req"
      unfolding y using doRequest_sent [of m p d u v' s'] n c
      by (simp add: replicate_append_same)
    moreover have "client (snd (snd (?f y))) = client s"
      unfolding y using doRequest_client [of m p d u v' s'] c by simp
    ultimately show "?Q (snd (?f y))" by (intro conjI exI [of _ "Suc n"]) simp_all
  qed
  from withRetry_invariant_once [where Q = ?Q and f = ?f and x = "(v, s)", OF r q step]
  show ?thesis
    by (cases "withRetry retries ?f (v, s)") (auto simp: retrying_def)
qed




subsection \<open>The client configuration\<close>

lemma retrying_client:
  "client (snd (snd (retrying 8 (doRequest m p d u) v s))) = client s"
  using retrying_sent [of 8 m p d u v s] by simp

lemma QueueBuild_client:
  "client (snd (QueueBuild B buildTypeID branchName properties s)) = client s"
proof -
  let ?q = "foldl (\<lambda>q (k, v). q\<lparr>q_Property := q_Property q @ [\<lparr>Name = k, Value = v\<rparr>]\<rparr>)
      (if branchName \<noteq> [] then \<lparr>q_BuildTypeID = buildTypeID, q_Property = [], q_BranchName = [],
         q_Personal = ''true''\<rparr>\<lparr>q_BranchName := branchName\<rparr>
       else \<lparr>q_BuildTypeID = buildTypeID, q_Property = [], q_BranchName = [],
         q_Personal = ''true''\<rparr>) properties"
  let ?r = "retrying 8 (doRequest ''POST'' ''/httpAuth/app/rest/buildQueue''
       (Some (marshal_jsonQuery ?q)) (Some (decode_ptr (Build_decode B) (Build_zero B))))
       (Some (Build_zero B)) s"
  obtain e b' s' where R: "?r = (e, (b', s'))" by (cases ?r) auto
  with retrying_client [of "''POST''" "''/httpAuth/app/rest/buildQueue''"
      "Some (marshal_jsonQuery ?q)" "Some (decode_ptr (Build_decode B) (Build_zero B))"
      "Some (Build_zero B)" s]
  have "client s' = client s" by simp
  then show ?thesis unfolding QueueBuild_def Let_def R
    by (simp split: option.splits outcome.splits)
qed

lemma listBuilds_client: "client (snd (listBuilds B path s)) = client s"
proof -
  let ?r = "retrying 8 (doRequest ''GET'' path None (Some (decode_struct (respStruct_field B))))
      \<lparr>rs_Count = 0, rs_Build = None\<rparr> s"
  obtain e b' s' where R: "?r = (e, (b', s'))" by (cases ?r) auto
  with retrying_client [of "''GET''" path None "Some (decode_struct (respStruct_field B))"
      "\<lparr>rs_Count = 0, rs_Build = None\<rparr>" s]
  have "client s' = client s" by simp
  then show ?thesis unfolding listBuilds_def Let_def R
    by (simp split: option.splits outcome.splits)
qed

lemma GetBuild_client: "client (snd (GetBuild B buildID s)) = client s"
proof -
  let ?p = "''/httpAuth/app/rest/builds/id:'' @ buildID @
            ''?fields=*,tags(tag),triggered(*),properties(property),problemOccurrences(*,problemOccurrence(*)),testOccurrences(*,testOccurrence(*)),changes(*,change(*))''"
  let ?r = "retrying 8 (doRequest ''GET'' ?p None (Some (decode_ptr (Build_decode B) (Build_zero B))))
      None s"
  obtain e b' s' where R: "?r = (e, (b', s'))" by (cases ?r) auto
  with retrying_client [of "''GET''" ?p None "Some (decode_ptr (Build_decode B) (Build_zero B))" None s]
  have "client s' = client s" by simp
  then show ?thesis unfolding GetBuild_def Let_def R
    by (simp split: option.splits)
qed

lemma GetBuildID_client:
  "client (snd (GetBuildID B buildTypeID branchName buildNumber s)) = client s"
proof -
  let ?p = "''/httpAuth/app/rest/buildTypes/id:'' @ buildTypeID @
            ''/builds?locator=branch:'' @ branchName @ '',number:'' @ buildNumber @ '',count:1''"
  let ?d = "decode_ptr (decode_struct (builds_field B))
              \<lparr>bs_Count = 0, bs_Href = [], bs_NextHref = [], bs_Build = None\<rparr>"
  let ?r = "retrying 8 (doRequest ''GET'' ?p None (Some ?d)) None s"
  obtain e b' s' where R: "?r = (e, (b', s'))" by (cases ?r) auto
  with retrying_client [of "''GET''" ?p None "Some ?d" None s]
  have "client s' = client s" by simp
  then show ?thesis unfolding GetBuildID_def Let_def R
    by (simp split: option.splits list.splits)
qed

lemma GetBuildProperties_client: "client (snd (GetBuildProperties buildID s)) = client s"
proof -
  let ?p = "''/httpAuth/app/rest/builds/id:'' @ buildID @ ''/resulting-properties''"
  let ?r = "retrying 8 (doRequest ''GET'' ?p None (Some (decode_struct response_field))) None s"
  obtain e b' s' where R: "?r = (e, (b', s'))" by (cases ?r) auto
  with retrying_client [of "''GET''" ?p None "Some (decode_struct response_field)" None s]
  have "client s' = client s" by simp
  then show ?thesis unfolding GetBuildProperties_def Let_def R
    by (simp split: option.splits)
qed

lemma GetChanges_client: "client (snd (GetChanges C path s)) = client s"
proof -
  let ?r = "doRequest ''GET'' (path @ '',count:99999'') None
      (Some (decode_struct (changes_field C))) (None, s)"
  obtain e b' s' where R: "?r = (e, (b', s'))" by (cases ?r) auto
  with doRequest_client [of "''GET''" "path @ '',count:99999''" None
      "Some (decode_struct (changes_field C))" None s]
  have "client s' = client s" by simp
  then show ?thesis unfolding GetChanges_def R by (simp split: option.splits)
qed

lemma GetProblems_client: "client (snd (GetProblems P path count s)) = client s"
proof -
  let ?p = "path @ '',count:'' @ itoa count @ ''&fields=*,problemOccurrence(*,details)''"
  let ?z = "\<lparr>pb_Count = 0, pb_Default = False, pb_ProblemOccurrence = None\<rparr>"
  let ?r = "doRequest ''GET'' ?p None (Some (decode_struct (problems_field P))) (?z, s)"
  obtain e b' s' where R: "?r = (e, (b', s'))" by (cases ?r) auto
  with doRequest_client [of "''GET''" ?p None "Some (decode_struct (problems_field P))" ?z s]
  have "client s' = client s" by simp
  then show ?thesis unfolding GetProblems_def R by (simp split: option.splits)
qed

lemma GetTests_client:
  "client (snd (GetTests T path count failingOnly ignoreMuted s)) = client s"
proof -
  let ?p = "(if failingOnly then (if ignoreMuted then path @ '',currentlyMuted:false'' else path) @ '',status:FAILURE''
             else (if ignoreMuted then path @ '',currentlyMuted:false'' else path)) @ '',count:'' @ itoa count"
  let ?z = "\<lparr>ts_Count = 0, ts_HREF = [], ts_TestOccurrence = None\<rparr>"
  let ?r = "doRequest ''GET'' ?p None (Some (decode_struct (tests_field T))) (?z, s)"
  obtain e b' s' where R: "?r = (e, (b', s'))" by (cases ?r) auto
  with doRequest_client [of "''GET''" ?p None "Some (decode_struct (tests_field T))" ?z s]
  have "client s' = client s" by simp
  then show ?thesis unfolding GetTests_def Let_def R by (simp split: option.splits)
qed

lemma CancelBuild_client: "client (snd (CancelBuild buildID comment s)) = client s"
proof -
  let ?b = "JObject [(''buildCancelRequest'',
            JObject [(''comment'', JString comment), (''readIntoQueue'', JBool True)])]"
  let ?r = "doRequest ''POST'' (''/httpAuth/app/rest/id:'' @ itoa buildID) (Some ?b)
             (None :: unit decoder option) ((), s)"
  obtain e b' s' where R: "?r = (e, (b', s'))" by (cases ?r) auto
  with doRequest_client [of "''POST''" "''/httpAuth/app/rest/id:'' @ itoa buildID" "Some ?b"
      "None :: unit decoder option" "()" s]
  have "client s' = client s" by simp
  then show ?thesis unfolding CancelBuild_def Let_def R by simp
qed

lemma GetBuildLog_client: "client (snd (GetBuildLog buildID s)) = client s"
proof -
  let ?r = "doNotJSONRequest ''GET'' (''/httpAuth/downloadBuildLog.html?buildId='' @ buildID)
             None s"
  obtain c e s' where R: "?r = ((c, e), s')" by (cases ?r) auto
  with doNotJSONRequest_client
    [of "''GET''" "''/httpAuth/downloadBuildLog.html?buildId='' @ buildID" None s]
  have "client s' = client s" by simp
  then show ?thesis unfolding GetBuildLog_def R by simp
qed

text \<open>
  C9. Every operation leaves the client as it was: the host, the user name, the password,
  and also the transport handle and the debug flag. \<open>SetDebug\<close> sets the debug flag
  and changes nothing else.
\<close>

theorem client_configuration_frame:
  "client (snd (QueueBuild B buildTypeID branchName properties s)) = client s \<and>
   client (snd (SearchBuild B locator s)) = client s \<and>
   client (snd (GetQueuedBuilds B locator s)) = client s \<and>
   client (snd (GetBuild B buildID s)) = client s \<and>
   client (snd (GetBuildID B buildTypeID branchName buildNumber s)) = client s \<and>
   client (snd (GetBuildProperties buildID s)) = client s \<and>
   client (snd (GetChanges C path s)) = client s \<and>
   client (snd (GetProblems P path count s)) = client s \<and>
   client (snd (GetTests T path count failingOnly ignoreMuted s)) = client s \<and>
   client (snd (CancelBuild cancelID comment s)) = client s \<and>
   client (snd (GetBuildLog buildID s)) = client s \<and>
   SetDebug d s = s\<lparr>client := (client s)\<lparr>debug := d\<rparr>\<rparr> \<and>
   host (client (SetDebug d s)) = host (client s) \<and>
   username (client (SetDebug d s)) = username (client s) \<and>
   password (client (SetDebug d s)) = password (client s) \<and>
   HTTPClient (client (SetDebug d s)) = HTTPClient (client s) \<and>
   debug (client (SetDebug d s)) = d"
  by (simp add: QueueBuild_client SearchBuild_def GetQueuedBuilds_def listBuilds_client
      GetBuild_client GetBuildID_client GetBuildProperties_client GetChanges_client
      GetProblems_client GetTests_client CancelBuild_client GetBuildLog_client SetDebug_def)

subsection \<open>Which operations retry\<close>




















end
